theory Spec2Isabelle
  imports Main
begin

section \<open>Errors\<close>

text \<open>
  Go errors are compared by identity. Each package-level sentinel made with
  \<^verbatim>\<open>errors.New\<close> is one constructor; an error built on the spot
  (\<^verbatim>\<open>fmt.Errorf\<close> with some text) is \<open>Errorf\<close> of its text. The
  sentinels of \<^verbatim>\<open>facebook/login.go\<close> and of the bitbucket
  \<^verbatim>\<open>login.go\<close> are in the source; the others are named by the tests
  (\<^verbatim>\<open>ErrUnableToGetGithubUser\<close>, \<^verbatim>\<open>ErrMissingToken\<close>,
  \<^verbatim>\<open>ErrMissingTokenSecret\<close>) or by the specification
  (\<open>MethodNotAllowed\<close>, the missing-token error of the oauth2 package).
\<close>

datatype error =
    ErrUnableToGetFacebookUser
  | ErrUnableToGetBitbucketUser
  | ErrUnableToGetGithubUser
  | ErrContextMissingToken
  | ErrMissingToken
  | ErrMissingTokenSecret
  | ErrMethodNotAllowed
  | Errorf string

text \<open>
  \<^verbatim>\<open>err.Error()\<close>. The first two texts are those of the source. The text
  of the missing-token error and of the method error are the ones the tests compare
  with; the remaining three are not in the source: the github text follows the two
  sibling sentinels, the two token-field texts are the ones the specification quotes.
\<close>

fun Error :: "error \<Rightarrow> string" where
  "Error ErrUnableToGetFacebookUser = ''facebook: unable to get Facebook User''"
| "Error ErrUnableToGetBitbucketUser = ''bitbucket: unable to get Bitbucket User''"
| "Error ErrUnableToGetGithubUser = ''github: unable to get Github User''"
| "Error ErrContextMissingToken = ''oauth2: Context missing Token''"
| "Error ErrMissingToken = ''Unable to get request Token''"
| "Error ErrMissingTokenSecret = ''Unable to get request Token Secret''"
| "Error ErrMethodNotAllowed = ''Method not allowed''"
| "Error (Errorf s) = s"

text \<open>
  A run-time panic of the Go program. The only one the modelled code can raise by
  itself is the dereference of a nil pointer.
\<close>

datatype go_panic = NilPointerDereference

section \<open>Users and responses\<close>

text \<open>
  A pointer that may be nil is an \<open>option\<close>. Of \<^verbatim>\<open>http.Response\<close> the
  code reads the status code only. The facebook \<^verbatim>\<open>User\<close> has the fields
  the tests build it with; of the bitbucket \<^verbatim>\<open>User\<close> the source reads
  \<^verbatim>\<open>Username\<close>.
\<close>

record Response =
  StatusCode :: int

record facebook_User =
  ID :: string
  Name :: string

record bitbucket_User =
  Username :: string

definition StatusOK :: int where
  "StatusOK = 200"

section \<open>The response validators\<close>

text \<open>
  \<^verbatim>\<open>validateResponse\<close> of \<^verbatim>\<open>facebook/login.go\<close>. The first test is
  \<^verbatim>\<open>err != nil || resp.StatusCode != http.StatusOK\<close>: Go evaluates
  \<^verbatim>\<open>||\<close> from the left and stops at the first true operand, so the status
  code is read only when \<^verbatim>\<open>err\<close> is nil, and reading it through a nil
  \<^verbatim>\<open>resp\<close> panics. \<open>Inl\<close> is the panic, \<open>Inr\<close> the returned error
  (\<open>None\<close> for nil).
\<close>

definition facebook_validateResponse ::
  "facebook_User option \<Rightarrow> Response option \<Rightarrow> error option \<Rightarrow> go_panic + error option" where
  "facebook_validateResponse user resp err =
     (if err \<noteq> None then Inr (Some ErrUnableToGetFacebookUser)
      else (case resp of
              None \<Rightarrow> Inl NilPointerDereference
            | Some r \<Rightarrow>
                if StatusCode r \<noteq> StatusOK then Inr (Some ErrUnableToGetFacebookUser)
                else (case user of
                        None \<Rightarrow> Inr (Some ErrUnableToGetFacebookUser)
                      | Some u \<Rightarrow>
                          if ID u = '''' then Inr (Some ErrUnableToGetFacebookUser)
                          else Inr None)))"

text \<open>\<^verbatim>\<open>validateResponse\<close> of the bitbucket package: the same, on \<^verbatim>\<open>Username\<close>.\<close>

definition bitbucket_validateResponse ::
  "bitbucket_User option \<Rightarrow> Response option \<Rightarrow> error option \<Rightarrow> go_panic + error option" where
  "bitbucket_validateResponse user resp err =
     (if err \<noteq> None then Inr (Some ErrUnableToGetBitbucketUser)
      else (case resp of
              None \<Rightarrow> Inl NilPointerDereference
            | Some r \<Rightarrow>
                if StatusCode r \<noteq> StatusOK then Inr (Some ErrUnableToGetBitbucketUser)
                else (case user of
                        None \<Rightarrow> Inr (Some ErrUnableToGetBitbucketUser)
                      | Some u \<Rightarrow>
                          if Username u = '''' then Inr (Some ErrUnableToGetBitbucketUser)
                          else Inr None)))"

section \<open>Requests, response writers and handlers\<close>

text \<open>
  What the code uses of \<^verbatim>\<open>net/http\<close>. A request has its method and its
  parsed form (\<^verbatim>\<open>url.Values\<close>, a map from a field name to its values;
  \<^verbatim>\<open>Get\<close> is the first value of a field, or the empty string). A
  response writer has the status code, \<open>None\<close> until the header is written, and the
  body written so far: \<^verbatim>\<open>WriteHeader\<close> sets the status once, and
  \<^verbatim>\<open>Write\<close> on a writer whose header is not written yet writes the
  default status 200 first.
\<close>

record Request =
  Method :: string
  PostForm :: "string \<rightharpoonup> string list"

definition Get :: "(string \<rightharpoonup> string list) \<Rightarrow> string \<Rightarrow> string" where
  "Get vs key = (case vs key of None \<Rightarrow> '''' | Some [] \<Rightarrow> '''' | Some (v # _) \<Rightarrow> v)"

record ResponseWriter =
  Code :: "int option"
  Body :: string

definition NewRecorder :: ResponseWriter where
  "NewRecorder = \<lparr>Code = None, Body = ''''\<rparr>"

definition StatusBadRequest :: int where
  "StatusBadRequest = 400"

definition WriteHeader :: "ResponseWriter \<Rightarrow> int \<Rightarrow> ResponseWriter" where
  "WriteHeader w c = (case Code w of None \<Rightarrow> w\<lparr>Code := Some c\<rparr> | Some _ \<Rightarrow> w)"

definition Write :: "ResponseWriter \<Rightarrow> string \<Rightarrow> ResponseWriter" where
  "Write w s =
     (let w' = (case Code w of None \<Rightarrow> WriteHeader w StatusOK | Some _ \<Rightarrow> w)
      in w'\<lparr>Body := Body w' @ s\<rparr>)"

section \<open>The scoped context\<close>

text \<open>
  Of \<^verbatim>\<open>oauth2.Token\<close> the tests set the access token only. The github
  \<^verbatim>\<open>User\<close> is the one the github tests build: its fields are pointers.
\<close>

record Token =
  AccessToken :: string

record github_User =
  github_ID :: "int option"
  github_Name :: "string option"

datatype ctx_key =
  tokenKey | errorKey | facebookUserKey | bitbucketUserKey | githubUserKey
  | accessTokenKey | accessSecretKey

datatype ctx_value =
    TokenValue Token
  | ErrorValue error
  | FacebookUserValue "facebook_User option"
  | BitbucketUserValue "bitbucket_User option"
  | GithubUserValue "github_User option"
  | StringValue string

text \<open>
  Modelled from the spec: the scoped context and its typed accessors
  (\<^verbatim>\<open>gologin.WithError\<close>, \<^verbatim>\<open>gologin.ErrorFromContext\<close>,
  \<^verbatim>\<open>oauth2Login.WithToken\<close>, \<^verbatim>\<open>oauth2Login.TokenFromContext\<close>,
  the providers' \<^verbatim>\<open>WithUser\<close>, oauth1's \<^verbatim>\<open>WithAccessToken\<close>
  and \<^verbatim>\<open>AccessTokenFromContext\<close>) are called by the source but not part of
  it. The context is an ordered chain of immutable frames, each frame adding one binding
  of a key to a value; lookup walks the chain from the newest frame to the oldest. The
  accessors are typed get and set operations over the chain; a token that is absent is
  reported by the error whose text the handler tests compare with.
\<close>

type_synonym Context = "(ctx_key \<times> ctx_value) list"

definition Background :: Context where
  "Background = []"

definition WithValue :: "Context \<Rightarrow> ctx_key \<Rightarrow> ctx_value \<Rightarrow> Context" where
  "WithValue ctx k v = (k, v) # ctx"

definition Value :: "Context \<Rightarrow> ctx_key \<Rightarrow> ctx_value option" where
  "Value ctx k = map_of ctx k"

definition WithError :: "Context \<Rightarrow> error \<Rightarrow> Context" where
  "WithError ctx err = WithValue ctx errorKey (ErrorValue err)"

definition ErrorFromContext :: "Context \<Rightarrow> error option" where
  "ErrorFromContext ctx = (case Value ctx errorKey of Some (ErrorValue e) \<Rightarrow> Some e | _ \<Rightarrow> None)"

definition WithToken :: "Context \<Rightarrow> Token \<Rightarrow> Context" where
  "WithToken ctx token = WithValue ctx tokenKey (TokenValue token)"

definition TokenFromContext :: "Context \<Rightarrow> error + Token" where
  "TokenFromContext ctx =
     (case Value ctx tokenKey of Some (TokenValue t) \<Rightarrow> Inr t | _ \<Rightarrow> Inl ErrContextMissingToken)"

definition facebook_WithUser :: "Context \<Rightarrow> facebook_User option \<Rightarrow> Context" where
  "facebook_WithUser ctx user = WithValue ctx facebookUserKey (FacebookUserValue user)"

definition bitbucket_WithUser :: "Context \<Rightarrow> bitbucket_User option \<Rightarrow> Context" where
  "bitbucket_WithUser ctx user = WithValue ctx bitbucketUserKey (BitbucketUserValue user)"

definition github_WithUser :: "Context \<Rightarrow> github_User option \<Rightarrow> Context" where
  "github_WithUser ctx user = WithValue ctx githubUserKey (GithubUserValue user)"

definition WithAccessToken :: "Context \<Rightarrow> string \<Rightarrow> string \<Rightarrow> Context" where
  "WithAccessToken ctx accessToken accessSecret =
     WithValue (WithValue ctx accessTokenKey (StringValue accessToken))
       accessSecretKey (StringValue accessSecret)"

definition AccessTokenFromContext :: "Context \<Rightarrow> error + string \<times> string" where
  "AccessTokenFromContext ctx =
     (case Value ctx accessTokenKey of
        Some (StringValue t) \<Rightarrow>
          (case Value ctx accessSecretKey of
             Some (StringValue s) \<Rightarrow> Inr (t, s)
           | _ \<Rightarrow> Inl ErrMissingTokenSecret)
      | _ \<Rightarrow> Inl ErrMissingToken)"

section \<open>Handlers and what a run of a handler does\<close>

text \<open>
  A \<^verbatim>\<open>goji.Handler\<close> serves a request in a context and writes to the response
  writer: a function to the writer it leaves. The success and failure handlers are the
  caller's: any such function. The failure handler may be nil (\<open>None\<close>); the success
  handler is required, the source calls it without a test.

  To count calls, a run of a stage records its events in order: each call of the
  provider's user endpoint (with the token used), and each call of the success or of
  the failure handler (with the context passed). A run ends with the writer it leaves and
  with the panic that stopped it, if any.
\<close>

type_synonym Handler = "Context \<Rightarrow> ResponseWriter \<Rightarrow> Request \<Rightarrow> ResponseWriter"

datatype event =
    is_ProviderCalled: ProviderCalled Token
  | is_SuccessCalled: SuccessCalled Context
  | is_FailureCalled: FailureCalled Context

record run =
  events :: "event list"
  writer :: ResponseWriter
  panicked :: "go_panic option"

definition provider_calls :: "run \<Rightarrow> nat" where
  "provider_calls r = length (filter is_ProviderCalled (events r))"

definition success_calls :: "run \<Rightarrow> nat" where
  "success_calls r = length (filter is_SuccessCalled (events r))"

definition failure_calls :: "run \<Rightarrow> nat" where
  "failure_calls r = length (filter is_FailureCalled (events r))"

text \<open>
  \<^verbatim>\<open>h.ServeHTTPC(ctx, w, req)\<close> as the last step of a run that has made the
  events \<open>evs\<close>: the call is recorded and the handler runs on the writer.
\<close>

definition ServeHTTPC ::
  "(Context \<Rightarrow> event) \<Rightarrow> Handler \<Rightarrow> event list \<Rightarrow> Context \<Rightarrow> ResponseWriter \<Rightarrow> Request \<Rightarrow> run" where
  "ServeHTTPC called h evs ctx w req =
     \<lparr>events = evs @ [called ctx], writer = h ctx w req, panicked = None\<rparr>"

definition panic :: "event list \<Rightarrow> ResponseWriter \<Rightarrow> go_panic \<Rightarrow> run" where
  "panic evs w p = \<lparr>events = evs, writer = w, panicked = Some p\<rparr>"

text \<open>
  Modelled from the spec: \<^verbatim>\<open>gologin.DefaultFailureHandler\<close> is used by the
  source but not part of it. When no caller-supplied failure handler exists, it writes
  the last error's message as the full response body and relies on the response
  writer's default status handling; the tests read the body as the message followed by
  a newline. (With no error in the context the message is taken to be empty.)
\<close>

definition DefaultFailureHandler :: Handler where
  "DefaultFailureHandler ctx w req =
     Write w ((case ErrorFromContext ctx of None \<Rightarrow> '''' | Some err \<Rightarrow> Error err) @ [CHR 0x0A])"

text \<open>
  The first statement of every stage: \<^verbatim>\<open>if failure == nil { failure =
  gologin.DefaultFailureHandler }\<close>.
\<close>

definition failureOrDefault :: "Handler option \<Rightarrow> Handler" where
  "failureOrDefault failure = (case failure of None \<Rightarrow> DefaultFailureHandler | Some f \<Rightarrow> f)"

text \<open>
  The provider's user endpoint. \<^verbatim>\<open>config.Client(ctx, token)\<close> is of the oauth2
  library, and \<^verbatim>\<open>newClient\<close> and \<^verbatim>\<open>Me\<close> (bitbucket:
  \<^verbatim>\<open>CurrentUser\<close>) make one HTTP round trip to the provider: the configuration
  stands for the three together, the triple (user, response, err) that the round trip
  yields for the client made from the context and the token.
\<close>

type_synonym 'u Config = "Context \<Rightarrow> Token \<Rightarrow> 'u option \<times> Response option \<times> error option"

text \<open>
  \<^verbatim>\<open>facebookHandler\<close> of \<^verbatim>\<open>facebook/login.go\<close>: the function it
  returns, applied to a context, a writer and a request.
\<close>

definition facebookHandler ::
  "facebook_User Config \<Rightarrow> Handler \<Rightarrow> Handler option \<Rightarrow> Context \<Rightarrow> ResponseWriter \<Rightarrow> Request \<Rightarrow> run" where
  "facebookHandler config success failure ctx w req =
     (let failure = failureOrDefault failure in
      case TokenFromContext ctx of
        Inl err \<Rightarrow> ServeHTTPC FailureCalled failure [] (WithError ctx err) w req
      | Inr token \<Rightarrow>
          (case config ctx token of
             (user, resp, err) \<Rightarrow>
               (case facebook_validateResponse user resp err of
                  Inl p \<Rightarrow> panic [ProviderCalled token] w p
                | Inr (Some err) \<Rightarrow>
                    ServeHTTPC FailureCalled failure [ProviderCalled token] (WithError ctx err) w req
                | Inr None \<Rightarrow>
                    ServeHTTPC SuccessCalled success [ProviderCalled token]
                      (facebook_WithUser ctx user) w req)))"

text \<open>\<^verbatim>\<open>bitbucketHandler\<close> of the bitbucket \<^verbatim>\<open>login.go\<close>.\<close>

definition bitbucketHandler ::
  "bitbucket_User Config \<Rightarrow> Handler \<Rightarrow> Handler option \<Rightarrow> Context \<Rightarrow> ResponseWriter \<Rightarrow> Request \<Rightarrow> run" where
  "bitbucketHandler config success failure ctx w req =
     (let failure = failureOrDefault failure in
      case TokenFromContext ctx of
        Inl err \<Rightarrow> ServeHTTPC FailureCalled failure [] (WithError ctx err) w req
      | Inr token \<Rightarrow>
          (case config ctx token of
             (user, resp, err) \<Rightarrow>
               (case bitbucket_validateResponse user resp err of
                  Inl p \<Rightarrow> panic [ProviderCalled token] w p
                | Inr (Some err) \<Rightarrow>
                    ServeHTTPC FailureCalled failure [ProviderCalled token] (WithError ctx err) w req
                | Inr None \<Rightarrow>
                    ServeHTTPC SuccessCalled success [ProviderCalled token]
                      (bitbucket_WithUser ctx user) w req)))"

text \<open>
  Modelled from the spec: the github package's \<^verbatim>\<open>validateResponse\<close> and
  \<^verbatim>\<open>githubHandler\<close> are not in the source, only their tests are. The
  validator's policy is uniform across providers: a non-nil err is rejected, a status
  code other than 200 is rejected, a nil user or a user whose primary identifier is the
  zero value (here a nil \<^verbatim>\<open>ID\<close>) is rejected, anything else is accepted. The
  user-fetch stage reads the token from the context and fails with the missing-token
  error when it is absent; otherwise it calls the provider's user endpoint once, passes
  the triple to the validator, and on rejection attaches the provider's sentinel error
  and invokes the failure handler, on acceptance attaches the user and invokes the
  success handler.
\<close>

definition github_validateResponse ::
  "github_User option \<Rightarrow> Response option \<Rightarrow> error option \<Rightarrow> go_panic + error option" where
  "github_validateResponse user resp err =
     (if err \<noteq> None then Inr (Some ErrUnableToGetGithubUser)
      else (case resp of
              None \<Rightarrow> Inl NilPointerDereference
            | Some r \<Rightarrow>
                if StatusCode r \<noteq> StatusOK then Inr (Some ErrUnableToGetGithubUser)
                else (case user of
                        None \<Rightarrow> Inr (Some ErrUnableToGetGithubUser)
                      | Some u \<Rightarrow>
                          if github_ID u = None then Inr (Some ErrUnableToGetGithubUser)
                          else Inr None)))"

definition githubHandler ::
  "github_User Config \<Rightarrow> Handler \<Rightarrow> Handler option \<Rightarrow> Context \<Rightarrow> ResponseWriter \<Rightarrow> Request \<Rightarrow> run" where
  "githubHandler config success failure ctx w req =
     (let failure = failureOrDefault failure in
      case TokenFromContext ctx of
        Inl err \<Rightarrow> ServeHTTPC FailureCalled failure [] (WithError ctx err) w req
      | Inr token \<Rightarrow>
          (case config ctx token of
             (user, resp, err) \<Rightarrow>
               (case github_validateResponse user resp err of
                  Inl p \<Rightarrow> panic [ProviderCalled token] w p
                | Inr (Some err) \<Rightarrow>
                    ServeHTTPC FailureCalled failure [ProviderCalled token] (WithError ctx err) w req
                | Inr None \<Rightarrow>
                    ServeHTTPC SuccessCalled success [ProviderCalled token]
                      (github_WithUser ctx user) w req)))"

section \<open>The standalone Token Stage\<close>

text \<open>
  Modelled from the spec: the standalone Token Stage. Its code, the twitter package's
  \<^verbatim>\<open>TokenHandler\<close>, is not in the source, only its tests are. The stage
  rejects any non-POST method with \<open>MethodNotAllowed\<close>, surfaced as HTTP 400, and
  invokes \<open>onFailure\<close>; it rejects a missing or blank access-token field with
  \<open>MissingToken\<close> and a missing or blank access-token-secret field with
  \<open>MissingTokenSecret\<close>, both with HTTP 400; otherwise it stores the supplied
  pair of token and secret directly in the context (no provider round trip) and invokes
  \<open>onSuccess\<close>. \<open>onFailure\<close> defaults to the default failure handler when
  the caller passes none. The two form fields are named \<^verbatim>\<open>oauth_token\<close>
  and \<^verbatim>\<open>oauth_token_secret\<close>; a field is blank when its value is the
  empty string.

  \<open>onSuccess\<close> is the continuation of the stage. For a concrete provider it is that
  provider's user-fetch stage wrapped around the caller's success handler, as for the
  callback stage: this is why, in the tests of the twitter \<^verbatim>\<open>TokenHandler\<close>,
  the caller's success handler finds the user in its context, and is not called when the
  provider is down. That wrapping is the composition of stages, not part of this stage.
\<close>

definition accessTokenField :: string where
  "accessTokenField = ''oauth_token''"

definition accessTokenSecretField :: string where
  "accessTokenSecretField = ''oauth_token_secret''"

definition TokenStage ::
  "Handler \<Rightarrow> Handler option \<Rightarrow> Context \<Rightarrow> ResponseWriter \<Rightarrow> Request \<Rightarrow> run" where
  "TokenStage onSuccess onFailure ctx w req =
     (let onFailure = failureOrDefault onFailure in
      if Method req \<noteq> ''POST'' then
        ServeHTTPC FailureCalled onFailure [] (WithError ctx ErrMethodNotAllowed)
          (WriteHeader w StatusBadRequest) req
      else
        (let accessToken = Get (PostForm req) accessTokenField;
             accessSecret = Get (PostForm req) accessTokenSecretField
         in if accessToken = '''' then
              ServeHTTPC FailureCalled onFailure [] (WithError ctx ErrMissingToken)
                (WriteHeader w StatusBadRequest) req
            else if accessSecret = '''' then
              ServeHTTPC FailureCalled onFailure [] (WithError ctx ErrMissingTokenSecret)
                (WriteHeader w StatusBadRequest) req
            else
              ServeHTTPC SuccessCalled onSuccess [] (WithAccessToken ctx accessToken accessSecret)
                w req))"

section \<open>Predicates of the claims\<close>

text \<open>
  A context carries an OAuth2 token when the newest binding of the token key is a token.
\<close>

definition carries_token :: "Context \<Rightarrow> bool" where
  "carries_token ctx = (case Value ctx tokenKey of Some (TokenValue t) \<Rightarrow> True | _ \<Rightarrow> False)"


text \<open>
  A form field is missing or blank when the form has no value for it, or its first
  value is the empty string: the cases in which \<^verbatim>\<open>Get\<close> yields the empty
  string.
\<close>

definition missing_or_blank :: "Request \<Rightarrow> string \<Rightarrow> bool" where
  "missing_or_blank req field =
     (case PostForm req field of None \<Rightarrow> True | Some [] \<Rightarrow> True | Some (v # _) \<Rightarrow> v = '''')"

section \<open>Properties of the response validators\<close>

lemma facebook_validateResponse_err:
  "facebook_validateResponse user resp (Some e) = Inr (Some ErrUnableToGetFacebookUser)"
  by (simp add: facebook_validateResponse_def)

lemma facebook_validateResponse_resp:
  "facebook_validateResponse user (Some r) None =
     Inr (if StatusCode r = 200 \<and> (\<exists>u. user = Some u \<and> ID u \<noteq> '''')
          then None else Some ErrUnableToGetFacebookUser)"
  by (cases user) (simp_all add: facebook_validateResponse_def StatusOK_def)

lemma facebook_validateResponse_nil:
  "facebook_validateResponse user None None = Inl NilPointerDereference"
  by (simp add: facebook_validateResponse_def)

lemma bitbucket_validateResponse_err:
  "bitbucket_validateResponse user resp (Some e) = Inr (Some ErrUnableToGetBitbucketUser)"
  by (simp add: bitbucket_validateResponse_def)

lemma bitbucket_validateResponse_resp:
  "bitbucket_validateResponse user (Some r) None =
     Inr (if StatusCode r = 200 \<and> (\<exists>u. user = Some u \<and> Username u \<noteq> '''')
          then None else Some ErrUnableToGetBitbucketUser)"
  by (cases user) (simp_all add: bitbucket_validateResponse_def StatusOK_def)

lemma bitbucket_validateResponse_nil:
  "bitbucket_validateResponse user None None = Inl NilPointerDereference"
  by (simp add: bitbucket_validateResponse_def)

text \<open>
  Claim C1, as stated, at the triple of a nil user, a nil response and a nil error:
  the user is nil, so the claim promises the sentinel error, but the validators read
  the status code of the nil response and panic.
\<close>

theorem validateResponse_nil_triple_panics:
  "facebook_validateResponse None None None \<noteq> Inr (Some ErrUnableToGetFacebookUser)
   \<and> facebook_validateResponse None None None = Inl NilPointerDereference
   \<and> bitbucket_validateResponse None None None \<noteq> Inr (Some ErrUnableToGetBitbucketUser)
   \<and> bitbucket_validateResponse None None None = Inl NilPointerDereference"
  by (simp add: facebook_validateResponse_nil bitbucket_validateResponse_nil)

text \<open>
  Claim C1, amended: for every triple (user, response, err) in which the response is
  non-nil or err is non-nil, the validator returns nil exactly when err is nil, the
  status code is 200 and the user is non-nil with a non-empty identifier (facebook:
  ID, bitbucket: Username), and it returns the provider's sentinel error exactly when
  one of these conditions is violated: err is non-nil, the status code of the response
  is not 200, the user is nil, or the identifier is empty.
\<close>

theorem validateResponse_accepts_iff_all_conditions:
  assumes "err \<noteq> None \<or> resp \<noteq> None"
  shows "((facebook_validateResponse fu resp err = Inr None) =
            (err = None \<and> (\<exists>r. resp = Some r \<and> StatusCode r = 200)
             \<and> (\<exists>u. fu = Some u \<and> ID u \<noteq> '''')))
       \<and> ((facebook_validateResponse fu resp err = Inr (Some ErrUnableToGetFacebookUser)) =
            (err \<noteq> None \<or> (\<exists>r. resp = Some r \<and> StatusCode r \<noteq> 200)
             \<or> fu = None \<or> (\<exists>u. fu = Some u \<and> ID u = '''')))
       \<and> ((bitbucket_validateResponse bu resp err = Inr None) =
            (err = None \<and> (\<exists>r. resp = Some r \<and> StatusCode r = 200)
             \<and> (\<exists>u. bu = Some u \<and> Username u \<noteq> '''')))
       \<and> ((bitbucket_validateResponse bu resp err = Inr (Some ErrUnableToGetBitbucketUser)) =
            (err \<noteq> None \<or> (\<exists>r. resp = Some r \<and> StatusCode r \<noteq> 200)
             \<or> bu = None \<or> (\<exists>u. bu = Some u \<and> Username u = '''')))"
proof (cases err)
  case (Some e)
  then show ?thesis
    by (simp add: facebook_validateResponse_err bitbucket_validateResponse_err)
next
  case None
  with assms obtain r where r: "resp = Some r" by auto
  have fb: "(\<exists>u. fu = Some u \<and> ID u \<noteq> '''') = (\<not> (fu = None \<or> (\<exists>u. fu = Some u \<and> ID u = '''')))"
    by (cases fu) auto
  have bb: "(\<exists>u. bu = Some u \<and> Username u \<noteq> '''') =
              (\<not> (bu = None \<or> (\<exists>u. bu = Some u \<and> Username u = '''')))"
    by (cases bu) auto
  show ?thesis
    unfolding None r facebook_validateResponse_resp bitbucket_validateResponse_resp
    using fb bb by auto
qed

theorem validateResponse_accepts_iff_all_conditions_witness:
  "facebook_validateResponse (Some \<lparr>ID = ''54638001'', Name = ''Ivy Crimson''\<rparr>)
       (Some \<lparr>StatusCode = 200\<rparr>) None = Inr None
   \<and> facebook_validateResponse (Some \<lparr>ID = '''', Name = ''''\<rparr>)
       (Some \<lparr>StatusCode = 200\<rparr>) None = Inr (Some ErrUnableToGetFacebookUser)
   \<and> bitbucket_validateResponse (Some \<lparr>Username = ''gopher''\<rparr>)
       (Some \<lparr>StatusCode = 200\<rparr>) None = Inr None
   \<and> bitbucket_validateResponse (Some \<lparr>Username = ''gopher''\<rparr>)
       (Some \<lparr>StatusCode = 500\<rparr>) None = Inr (Some ErrUnableToGetBitbucketUser)"
proof -
  have d: "(None :: error option) \<noteq> None \<or> Some \<lparr>StatusCode = 200\<rparr> \<noteq> None" by simp
  have d': "(None :: error option) \<noteq> None \<or> Some \<lparr>StatusCode = 500\<rparr> \<noteq> None" by simp
  show ?thesis
    using validateResponse_accepts_iff_all_conditions
            [OF d, of "Some \<lparr>ID = ''54638001'', Name = ''Ivy Crimson''\<rparr>"
               "Some \<lparr>Username = ''gopher''\<rparr>"]
          validateResponse_accepts_iff_all_conditions
            [OF d, of "Some \<lparr>ID = '''', Name = ''''\<rparr>" "Some \<lparr>Username = ''gopher''\<rparr>"]
          validateResponse_accepts_iff_all_conditions
            [OF d', of "Some \<lparr>ID = '''', Name = ''''\<rparr>" "Some \<lparr>Username = ''gopher''\<rparr>"]
    by simp
qed

text \<open>
  Claim C9: the validators are not total. They panic on the dereference of the nil
  response exactly when err is nil and the response is nil, whatever the user; on every
  other triple they return. So they return on a triple if and only if the response is
  non-nil whenever err is nil.
\<close>

theorem validateResponse_panics_iff_nil_response:
  "((facebook_validateResponse fu resp err = Inl NilPointerDereference) =
      (err = None \<and> resp = None))
   \<and> ((\<exists>v. facebook_validateResponse fu resp err = Inr v) = (err = None \<longrightarrow> resp \<noteq> None))
   \<and> ((bitbucket_validateResponse bu resp err = Inl NilPointerDereference) =
      (err = None \<and> resp = None))
   \<and> ((\<exists>v. bitbucket_validateResponse bu resp err = Inr v) = (err = None \<longrightarrow> resp \<noteq> None))"
proof (cases err)
  case (Some e)
  then show ?thesis
    by (simp add: facebook_validateResponse_err bitbucket_validateResponse_err)
next
  case None
  show ?thesis
  proof (cases resp)
    case None
    with \<open>err = None\<close> show ?thesis
      by (simp add: facebook_validateResponse_nil bitbucket_validateResponse_nil)
  next
    case (Some r)
    with \<open>err = None\<close> show ?thesis
      by (simp add: facebook_validateResponse_resp bitbucket_validateResponse_resp)
  qed
qed

theorem validateResponse_panics_iff_nil_response_witness:
  "facebook_validateResponse (Some \<lparr>ID = ''54638001'', Name = ''Ivy Crimson''\<rparr>) None None
     = Inl NilPointerDereference
   \<and> bitbucket_validateResponse (Some \<lparr>Username = ''gopher''\<rparr>) None None
     = Inl NilPointerDereference
   \<and> (\<exists>v. facebook_validateResponse None None (Some (Errorf ''Server error'')) = Inr v)
   \<and> (\<exists>v. bitbucket_validateResponse None (Some \<lparr>StatusCode = 500\<rparr>) None = Inr v)"
  using validateResponse_panics_iff_nil_response
          [of "Some \<lparr>ID = ''54638001'', Name = ''Ivy Crimson''\<rparr>" None None
              "Some \<lparr>Username = ''gopher''\<rparr>"]
        validateResponse_panics_iff_nil_response
          [of None None "Some (Errorf ''Server error'')" None]
        validateResponse_panics_iff_nil_response
          [of None "Some \<lparr>StatusCode = 500\<rparr>" None None]
  by simp

text \<open>
  Claim C10: on every triple on which it returns, a validator returns nil or its own
  provider's sentinel error, and nothing else: no error built on the spot, not the
  incoming err, not the sentinel of another provider (the sentinels are distinct
  values).
\<close>

theorem validateResponse_returns_nil_or_own_sentinel:
  "(facebook_validateResponse fu resp err = Inr v \<longrightarrow>
      v \<in> {None, Some ErrUnableToGetFacebookUser})
   \<and> (bitbucket_validateResponse bu resp err = Inr w \<longrightarrow>
      w \<in> {None, Some ErrUnableToGetBitbucketUser})
   \<and> (facebook_validateResponse fu resp err = Inr (Some e) \<longrightarrow>
        e \<noteq> ErrUnableToGetBitbucketUser \<and> (\<forall>s. e \<noteq> Errorf s))
   \<and> (bitbucket_validateResponse bu resp err = Inr (Some e') \<longrightarrow>
        e' \<noteq> ErrUnableToGetFacebookUser \<and> (\<forall>s. e' \<noteq> Errorf s))"
proof (cases err)
  case (Some x)
  then show ?thesis
    by (auto simp: facebook_validateResponse_err bitbucket_validateResponse_err)
next
  case None
  show ?thesis
  proof (cases resp)
    case None
    with \<open>err = None\<close> show ?thesis
      by (simp add: facebook_validateResponse_nil bitbucket_validateResponse_nil)
  next
    case (Some r)
    with \<open>err = None\<close> show ?thesis
      by (auto simp: facebook_validateResponse_resp bitbucket_validateResponse_resp
               split: if_splits)
  qed
qed

theorem validateResponse_returns_nil_or_own_sentinel_witness:
  "facebook_validateResponse None (Some \<lparr>StatusCode = 200\<rparr>) (Some (Errorf ''Server error''))
     = Inr (Some ErrUnableToGetFacebookUser)
   \<and> Some ErrUnableToGetFacebookUser \<in> {None, Some ErrUnableToGetFacebookUser}
   \<and> bitbucket_validateResponse None (Some \<lparr>StatusCode = 200\<rparr>) (Some (Errorf ''Server error''))
     = Inr (Some ErrUnableToGetBitbucketUser)
   \<and> ErrUnableToGetBitbucketUser \<noteq> ErrUnableToGetFacebookUser
   \<and> ErrUnableToGetBitbucketUser \<noteq> Errorf ''Server error''"
  using validateResponse_returns_nil_or_own_sentinel
          [of None "Some \<lparr>StatusCode = 200\<rparr>" "Some (Errorf ''Server error'')"
              "Some ErrUnableToGetFacebookUser" None "Some ErrUnableToGetBitbucketUser"
              ErrUnableToGetFacebookUser ErrUnableToGetBitbucketUser]
  by (simp add: facebook_validateResponse_def bitbucket_validateResponse_def)

section \<open>Properties of the user-fetch stages\<close>

lemma ErrorFromContext_WithError: "ErrorFromContext (WithError ctx e) = Some e"
  by (simp add: ErrorFromContext_def WithError_def WithValue_def Value_def)

lemma TokenFromContext_missing:
  "\<not> carries_token ctx \<Longrightarrow> TokenFromContext ctx = Inl ErrContextMissingToken"
  by (simp add: TokenFromContext_def carries_token_def split: option.splits ctx_value.splits)

lemma TokenFromContext_WithToken: "TokenFromContext (WithToken ctx token) = Inr token"
  by (simp add: TokenFromContext_def WithToken_def WithValue_def Value_def)

lemma ServeHTTPC_success_counts:
  "success_calls (ServeHTTPC SuccessCalled h evs ctx w req) = Suc (length (filter is_SuccessCalled evs))"
  "failure_calls (ServeHTTPC SuccessCalled h evs ctx w req) = length (filter is_FailureCalled evs)"
  "provider_calls (ServeHTTPC SuccessCalled h evs ctx w req) = length (filter is_ProviderCalled evs)"
  by (simp_all add: ServeHTTPC_def success_calls_def failure_calls_def provider_calls_def)

lemma ServeHTTPC_failure_counts:
  "success_calls (ServeHTTPC FailureCalled h evs ctx w req) = length (filter is_SuccessCalled evs)"
  "failure_calls (ServeHTTPC FailureCalled h evs ctx w req) = Suc (length (filter is_FailureCalled evs))"
  "provider_calls (ServeHTTPC FailureCalled h evs ctx w req) = length (filter is_ProviderCalled evs)"
  by (simp_all add: ServeHTTPC_def success_calls_def failure_calls_def provider_calls_def)

lemma ServeHTTPC_sel:
  "events (ServeHTTPC c h evs ctx w req) = evs @ [c ctx]"
  "writer (ServeHTTPC c h evs ctx w req) = h ctx w req"
  "panicked (ServeHTTPC c h evs ctx w req) = None"
  by (simp_all add: ServeHTTPC_def)

lemma github_validateResponse_err:
  "github_validateResponse user resp (Some e) = Inr (Some ErrUnableToGetGithubUser)"
  by (simp add: github_validateResponse_def)

lemma github_validateResponse_resp:
  "github_validateResponse user (Some r) None =
     Inr (if StatusCode r = 200 \<and> (\<exists>u. user = Some u \<and> github_ID u \<noteq> None)
          then None else Some ErrUnableToGetGithubUser)"
  by (cases user) (simp_all add: github_validateResponse_def StatusOK_def)






text \<open>The two branches of each stage: no token in the context, and a token.\<close>

lemma facebookHandler_missing:
  "TokenFromContext ctx = Inl e \<Longrightarrow>
   facebookHandler config success failure ctx w req =
     ServeHTTPC FailureCalled (failureOrDefault failure) [] (WithError ctx e) w req"
  by (simp add: facebookHandler_def)


lemma bitbucketHandler_missing:
  "TokenFromContext ctx = Inl e \<Longrightarrow>
   bitbucketHandler config success failure ctx w req =
     ServeHTTPC FailureCalled (failureOrDefault failure) [] (WithError ctx e) w req"
  by (simp add: bitbucketHandler_def)


lemma githubHandler_missing:
  "TokenFromContext ctx = Inl e \<Longrightarrow>
   githubHandler config success failure ctx w req =
     ServeHTTPC FailureCalled (failureOrDefault failure) [] (WithError ctx e) w req"
  by (simp add: githubHandler_def)




text \<open>
  Outside the client's contract, on a nil response with a nil error, the validator's
  panic stops the stage after the provider call and before either handler is called.
\<close>

lemma user_fetch_panics_on_nil_response:
  assumes "TokenFromContext ctx = Inr token"
  shows "fconfig ctx token = (fu, None, None) \<Longrightarrow>
           facebookHandler fconfig success failure ctx w req =
             \<lparr>events = [ProviderCalled token], writer = w, panicked = Some NilPointerDereference\<rparr>"
    and "bconfig ctx token = (bu, None, None) \<Longrightarrow>
           bitbucketHandler bconfig success failure ctx w req =
             \<lparr>events = [ProviderCalled token], writer = w, panicked = Some NilPointerDereference\<rparr>"
  using assms
  by (simp_all add: facebookHandler_def bitbucketHandler_def facebook_validateResponse_nil
        bitbucket_validateResponse_nil panic_def)




text \<open>
  Claim C3: on every context that carries no OAuth2 token, a run of facebookHandler, of
  bitbucketHandler and of githubHandler consists of one event, the call of the failure
  handler (the caller's, or the default one) on the context with the missing-token error
  attached; so the provider's user endpoint is never called, and neither is the success
  handler.
\<close>

theorem missing_token_fails_without_provider_call:
  assumes "\<not> carries_token ctx"
  shows "facebookHandler fconfig success failure ctx w req =
           \<lparr>events = [FailureCalled (WithError ctx ErrContextMissingToken)],
            writer = failureOrDefault failure (WithError ctx ErrContextMissingToken) w req,
            panicked = None\<rparr>
       \<and> bitbucketHandler bconfig success failure ctx w req =
           \<lparr>events = [FailureCalled (WithError ctx ErrContextMissingToken)],
            writer = failureOrDefault failure (WithError ctx ErrContextMissingToken) w req,
            panicked = None\<rparr>
       \<and> githubHandler gconfig success failure ctx w req =
           \<lparr>events = [FailureCalled (WithError ctx ErrContextMissingToken)],
            writer = failureOrDefault failure (WithError ctx ErrContextMissingToken) w req,
            panicked = None\<rparr>
       \<and> ErrorFromContext (WithError ctx ErrContextMissingToken) = Some ErrContextMissingToken
       \<and> provider_calls (facebookHandler fconfig success failure ctx w req) = 0
       \<and> provider_calls (bitbucketHandler bconfig success failure ctx w req) = 0
       \<and> provider_calls (githubHandler gconfig success failure ctx w req) = 0
       \<and> success_calls (facebookHandler fconfig success failure ctx w req) = 0
       \<and> success_calls (bitbucketHandler bconfig success failure ctx w req) = 0
       \<and> success_calls (githubHandler gconfig success failure ctx w req) = 0"
proof -
  note missing = TokenFromContext_missing [OF assms]
  show ?thesis
    unfolding facebookHandler_missing [OF missing] bitbucketHandler_missing [OF missing]
      githubHandler_missing [OF missing]
    by (simp add: ServeHTTPC_failure_counts ErrorFromContext_WithError) (simp add: ServeHTTPC_def)
qed

theorem missing_token_fails_without_provider_call_witness:
  "\<not> carries_token Background
   \<and> events
       (facebookHandler
          (\<lambda>c t. (Some \<lparr>ID = ''54638001'', Name = ''Ivy Crimson''\<rparr>, Some \<lparr>StatusCode = 200\<rparr>, None))
          (\<lambda>c w r. Write w ''success handler called'')
          (Some (\<lambda>c w r. Write w ''failure handler called'')) Background NewRecorder
          \<lparr>Method = ''GET'', PostForm = Map.empty\<rparr>)
     = [FailureCalled [(errorKey, ErrorValue ErrContextMissingToken)]]
   \<and> Body (writer
       (githubHandler
          (\<lambda>c t. (Some \<lparr>github_ID = Some 917408, github_Name = Some ''Alyssa Hacker''\<rparr>,
                   Some \<lparr>StatusCode = 200\<rparr>, None))
          (\<lambda>c w r. Write w ''success handler called'')
          (Some (\<lambda>c w r. Write w ''failure handler called'')) Background NewRecorder
          \<lparr>Method = ''GET'', PostForm = Map.empty\<rparr>))
     = ''failure handler called''
   \<and> Error ErrContextMissingToken = ''oauth2: Context missing Token''"
proof -
  have h: "\<not> carries_token Background"
    by (simp add: carries_token_def Background_def Value_def)
  show ?thesis
    using h missing_token_fails_without_provider_call
            [OF h, of "\<lambda>c t. (Some \<lparr>ID = ''54638001'', Name = ''Ivy Crimson''\<rparr>,
                               Some \<lparr>StatusCode = 200\<rparr>, None)"
               "\<lambda>c w r. Write w ''success handler called''"
               "Some (\<lambda>c w r. Write w ''failure handler called'')" NewRecorder
               "\<lparr>Method = ''GET'', PostForm = Map.empty\<rparr>"
               "\<lambda>c t. (None, None, None)"
               "\<lambda>c t. (Some \<lparr>github_ID = Some 917408, github_Name = Some ''Alyssa Hacker''\<rparr>,
                        Some \<lparr>StatusCode = 200\<rparr>, None)"]
    by (simp add: failureOrDefault_def WithError_def WithValue_def Background_def
          Write_def WriteHeader_def NewRecorder_def)
qed



section \<open>Properties of the Token Stage and of the default failure handler\<close>

lemma Get_empty_iff: "(Get (PostForm req) field = '''') = missing_or_blank req field"
  by (simp add: Get_def missing_or_blank_def split: option.splits list.splits)

lemma Body_WriteHeader: "Body (WriteHeader w c) = Body w"
  by (simp add: WriteHeader_def split: option.splits)

lemma Code_WriteHeader: "Code (WriteHeader w c) = (case Code w of None \<Rightarrow> Some c | Some c' \<Rightarrow> Some c')"
  by (simp add: WriteHeader_def split: option.splits)

lemma Body_Write: "Body (Write w s) = Body w @ s"
  by (simp add: Write_def Let_def Body_WriteHeader split: option.splits)

lemma Code_Write: "Code (Write w s) = (case Code w of None \<Rightarrow> Some StatusOK | Some c \<Rightarrow> Some c)"
  by (simp add: Write_def Let_def Code_WriteHeader split: option.splits)

lemma DefaultFailureHandler_WithError:
  "DefaultFailureHandler (WithError ctx e) w req = Write w (Error e @ [CHR 0x0A])"
  by (simp add: DefaultFailureHandler_def ErrorFromContext_WithError)

lemma AccessTokenFromContext_WithAccessToken:
  "AccessTokenFromContext (WithAccessToken ctx t s) = Inr (t, s)"
  by (simp add: AccessTokenFromContext_def WithAccessToken_def WithValue_def Value_def)

lemma TokenStage_non_post:
  "Method req \<noteq> ''POST'' \<Longrightarrow>
   TokenStage success failure ctx w req =
     ServeHTTPC FailureCalled (failureOrDefault failure) [] (WithError ctx ErrMethodNotAllowed)
       (WriteHeader w StatusBadRequest) req"
  by (simp add: TokenStage_def)

lemma TokenStage_missing_token:
  "Method req = ''POST'' \<Longrightarrow> missing_or_blank req accessTokenField \<Longrightarrow>
   TokenStage success failure ctx w req =
     ServeHTTPC FailureCalled (failureOrDefault failure) [] (WithError ctx ErrMissingToken)
       (WriteHeader w StatusBadRequest) req"
  by (simp add: TokenStage_def Get_empty_iff)

lemma TokenStage_missing_secret:
  "Method req = ''POST'' \<Longrightarrow> \<not> missing_or_blank req accessTokenField \<Longrightarrow>
   missing_or_blank req accessTokenSecretField \<Longrightarrow>
   TokenStage success failure ctx w req =
     ServeHTTPC FailureCalled (failureOrDefault failure) [] (WithError ctx ErrMissingTokenSecret)
       (WriteHeader w StatusBadRequest) req"
  by (simp add: TokenStage_def Get_empty_iff)

lemma TokenStage_post_both:
  "Method req = ''POST'' \<Longrightarrow> \<not> missing_or_blank req accessTokenField \<Longrightarrow>
   \<not> missing_or_blank req accessTokenSecretField \<Longrightarrow>
   TokenStage success failure ctx w req =
     ServeHTTPC SuccessCalled success []
       (WithAccessToken ctx (Get (PostForm req) accessTokenField)
          (Get (PostForm req) accessTokenSecretField)) w req"
  by (simp add: TokenStage_def Get_empty_iff Let_def)

text \<open>
  Claim C5: on every POST request whose form supplies a non-blank access token and a
  non-blank access-token secret, a run of the Token Stage is one event, the call of the
  success handler on the context in which exactly the supplied pair is stored: the pair
  read back from that context is the pair of the form. The success handler is called
  once, the failure handler and the provider are not called.
\<close>

theorem token_stage_stores_pair_and_calls_success_once:
  assumes "Method req = ''POST''"
      and "\<not> missing_or_blank req accessTokenField"
      and "\<not> missing_or_blank req accessTokenSecretField"
  shows "TokenStage success failure ctx w req =
           \<lparr>events = [SuccessCalled
                        (WithAccessToken ctx (Get (PostForm req) accessTokenField)
                           (Get (PostForm req) accessTokenSecretField))],
            writer = success
                       (WithAccessToken ctx (Get (PostForm req) accessTokenField)
                          (Get (PostForm req) accessTokenSecretField)) w req,
            panicked = None\<rparr>
       \<and> AccessTokenFromContext
           (WithAccessToken ctx (Get (PostForm req) accessTokenField)
              (Get (PostForm req) accessTokenSecretField))
         = Inr (Get (PostForm req) accessTokenField, Get (PostForm req) accessTokenSecretField)
       \<and> success_calls (TokenStage success failure ctx w req) = 1
       \<and> failure_calls (TokenStage success failure ctx w req) = 0
       \<and> provider_calls (TokenStage success failure ctx w req) = 0"
  unfolding TokenStage_post_both [OF assms]
  by (simp add: ServeHTTPC_success_counts AccessTokenFromContext_WithAccessToken)
     (simp add: ServeHTTPC_def)

theorem token_stage_stores_pair_and_calls_success_once_witness:
  "Method \<lparr>Method = ''POST'',
           PostForm = [''oauth_token'' \<mapsto> [''some-token''],
                       ''oauth_token_secret'' \<mapsto> [''some-secret'']]\<rparr> = ''POST''
   \<and> events
       (TokenStage (\<lambda>c w r. Write w ''success handler called'') None Background NewRecorder
          \<lparr>Method = ''POST'',
           PostForm = [''oauth_token'' \<mapsto> [''some-token''],
                       ''oauth_token_secret'' \<mapsto> [''some-secret'']]\<rparr>)
     = [SuccessCalled (WithAccessToken Background ''some-token'' ''some-secret'')]
   \<and> AccessTokenFromContext (WithAccessToken Background ''some-token'' ''some-secret'')
     = Inr (''some-token'', ''some-secret'')"
proof -
  let ?req = "\<lparr>Method = ''POST'',
                PostForm = [''oauth_token'' \<mapsto> [''some-token''],
                            ''oauth_token_secret'' \<mapsto> [''some-secret'']]\<rparr>"
  have m: "Method ?req = ''POST''" by simp
  have t: "\<not> missing_or_blank ?req accessTokenField"
    by (simp add: missing_or_blank_def accessTokenField_def)
  have s: "\<not> missing_or_blank ?req accessTokenSecretField"
    by (simp add: missing_or_blank_def accessTokenSecretField_def)
  show ?thesis
    using token_stage_stores_pair_and_calls_success_once
            [OF m t s, of "\<lambda>c w r. Write w ''success handler called''" None Background NewRecorder]
    by (simp add: Get_def accessTokenField_def accessTokenSecretField_def)
qed

text \<open>
  Claim C6: on every POST request, if the access-token field is missing or blank, a run
  of the Token Stage is one call of the failure handler on the context with
  \<open>MissingToken\<close> attached; if the access-token field is present and the
  access-token-secret field is missing or blank, it is one call of the failure handler
  on the context with \<open>MissingTokenSecret\<close> attached. The success handler is not
  called in either case. Under the default failure handler the body written is that
  error's message followed by a newline: it is the whole body when nothing was written
  before, as on a new recorder.
\<close>

theorem token_stage_rejects_missing_fields:
  assumes "Method req = ''POST''"
  shows "(missing_or_blank req accessTokenField \<longrightarrow>
            events (TokenStage success failure ctx w req)
              = [FailureCalled (WithError ctx ErrMissingToken)]
            \<and> ErrorFromContext (WithError ctx ErrMissingToken) = Some ErrMissingToken
            \<and> success_calls (TokenStage success failure ctx w req) = 0
            \<and> panicked (TokenStage success failure ctx w req) = None
            \<and> Body (writer (TokenStage success None ctx w req))
                = Body w @ Error ErrMissingToken @ [CHR 0x0A]
            \<and> Body (writer (TokenStage success None ctx NewRecorder req))
                = Error ErrMissingToken @ [CHR 0x0A])
       \<and> (\<not> missing_or_blank req accessTokenField
            \<and> missing_or_blank req accessTokenSecretField \<longrightarrow>
            events (TokenStage success failure ctx w req)
              = [FailureCalled (WithError ctx ErrMissingTokenSecret)]
            \<and> ErrorFromContext (WithError ctx ErrMissingTokenSecret) = Some ErrMissingTokenSecret
            \<and> success_calls (TokenStage success failure ctx w req) = 0
            \<and> panicked (TokenStage success failure ctx w req) = None
            \<and> Body (writer (TokenStage success None ctx w req))
                = Body w @ Error ErrMissingTokenSecret @ [CHR 0x0A]
            \<and> Body (writer (TokenStage success None ctx NewRecorder req))
                = Error ErrMissingTokenSecret @ [CHR 0x0A])"
proof (intro conjI impI)
  assume t: "missing_or_blank req accessTokenField"
  note run = TokenStage_missing_token [OF assms t]
  show "events (TokenStage success failure ctx w req)
          = [FailureCalled (WithError ctx ErrMissingToken)]"
    and "success_calls (TokenStage success failure ctx w req) = 0"
    and "panicked (TokenStage success failure ctx w req) = None"
    by (simp_all add: run ServeHTTPC_sel ServeHTTPC_failure_counts)
  show "Body (writer (TokenStage success None ctx w req))
          = Body w @ Error ErrMissingToken @ [CHR 0x0A]"
    and "Body (writer (TokenStage success None ctx NewRecorder req))
          = Error ErrMissingToken @ [CHR 0x0A]"
    by (simp_all add: run ServeHTTPC_sel failureOrDefault_def DefaultFailureHandler_WithError
          Body_Write Body_WriteHeader NewRecorder_def)
next
  assume "\<not> missing_or_blank req accessTokenField \<and> missing_or_blank req accessTokenSecretField"
  then have t: "\<not> missing_or_blank req accessTokenField"
    and s: "missing_or_blank req accessTokenSecretField"
    by simp_all
  note run = TokenStage_missing_secret [OF assms t s]
  show "events (TokenStage success failure ctx w req)
          = [FailureCalled (WithError ctx ErrMissingTokenSecret)]"
    and "success_calls (TokenStage success failure ctx w req) = 0"
    and "panicked (TokenStage success failure ctx w req) = None"
    by (simp_all add: run ServeHTTPC_sel ServeHTTPC_failure_counts)
  show "Body (writer (TokenStage success None ctx w req))
          = Body w @ Error ErrMissingTokenSecret @ [CHR 0x0A]"
    and "Body (writer (TokenStage success None ctx NewRecorder req))
          = Error ErrMissingTokenSecret @ [CHR 0x0A]"
    by (simp_all add: run ServeHTTPC_sel failureOrDefault_def DefaultFailureHandler_WithError
          Body_Write Body_WriteHeader NewRecorder_def)
qed (simp_all add: ErrorFromContext_WithError)

theorem token_stage_rejects_missing_fields_witness:
  "Method \<lparr>Method = ''POST'', PostForm = [''wrongFieldName'' \<mapsto> [''some-token''],
                                          ''oauth_token_secret'' \<mapsto> [''some-secret'']]\<rparr> = ''POST''
   \<and> missing_or_blank
       \<lparr>Method = ''POST'', PostForm = [''wrongFieldName'' \<mapsto> [''some-token''],
                                      ''oauth_token_secret'' \<mapsto> [''some-secret'']]\<rparr>
       accessTokenField
   \<and> Body (writer
       (TokenStage (\<lambda>c w r. Write w ''success handler called'') None Background NewRecorder
          \<lparr>Method = ''POST'', PostForm = [''wrongFieldName'' \<mapsto> [''some-token''],
                                         ''oauth_token_secret'' \<mapsto> [''some-secret'']]\<rparr>))
     = Error ErrMissingToken @ [CHR 0x0A]
   \<and> success_calls
       (TokenStage (\<lambda>c w r. Write w ''success handler called'') None Background NewRecorder
          \<lparr>Method = ''POST'', PostForm = [''wrongFieldName'' \<mapsto> [''some-token''],
                                         ''oauth_token_secret'' \<mapsto> [''some-secret'']]\<rparr>) = 0"
proof -
  let ?req = "\<lparr>Method = ''POST'', PostForm = [''wrongFieldName'' \<mapsto> [''some-token''],
                                               ''oauth_token_secret'' \<mapsto> [''some-secret'']]\<rparr>"
  have m: "Method ?req = ''POST''" by simp
  have t: "missing_or_blank ?req accessTokenField"
    by (simp add: missing_or_blank_def accessTokenField_def)
  show ?thesis
    using m t token_stage_rejects_missing_fields
            [OF m, of "\<lambda>c w r. Write w ''success handler called''" None Background NewRecorder]
    by (simp add: NewRecorder_def)
qed

text \<open>
  Claim C7: on every request whose method is not POST, a run of the Token Stage is one
  call of the failure handler on the context with \<open>MethodNotAllowed\<close> attached, on a
  writer whose status is 400 when no header was written before; the success handler is
  not called. Under the default failure handler, on a new recorder, the response has
  status 400 and its body is the text of the error, \<^verbatim>\<open>Method not allowed\<close>,
  as one line.
\<close>

theorem token_stage_rejects_non_post:
  assumes "Method req \<noteq> ''POST''"
  shows "TokenStage success failure ctx w req =
           \<lparr>events = [FailureCalled (WithError ctx ErrMethodNotAllowed)],
            writer = failureOrDefault failure (WithError ctx ErrMethodNotAllowed)
                       (WriteHeader w StatusBadRequest) req,
            panicked = None\<rparr>
       \<and> ErrorFromContext (WithError ctx ErrMethodNotAllowed) = Some ErrMethodNotAllowed
       \<and> success_calls (TokenStage success failure ctx w req) = 0
       \<and> failure_calls (TokenStage success failure ctx w req) = 1
       \<and> Code (WriteHeader w StatusBadRequest) = (case Code w of None \<Rightarrow> Some 400 | Some c \<Rightarrow> Some c)
       \<and> writer (TokenStage success None ctx NewRecorder req) =
           \<lparr>Code = Some 400, Body = Error ErrMethodNotAllowed @ [CHR 0x0A]\<rparr>
       \<and> Error ErrMethodNotAllowed = ''Method not allowed''"
  unfolding TokenStage_non_post [OF assms]
  by (simp add: ServeHTTPC_failure_counts ErrorFromContext_WithError Code_WriteHeader
        StatusBadRequest_def)
     (simp add: ServeHTTPC_def failureOrDefault_def DefaultFailureHandler_WithError
        Write_def WriteHeader_def NewRecorder_def)

theorem token_stage_rejects_non_post_witness:
  "Method \<lparr>Method = ''GET'', PostForm = Map.empty\<rparr> \<noteq> ''POST''
   \<and> events
       (TokenStage (\<lambda>c w r. Write w ''success handler called'')
          (Some (\<lambda>c w r. Write w ''failure handler called'')) Background NewRecorder
          \<lparr>Method = ''GET'', PostForm = Map.empty\<rparr>)
     = [FailureCalled (WithError Background ErrMethodNotAllowed)]
   \<and> writer
       (TokenStage (\<lambda>c w r. Write w ''success handler called'') None Background NewRecorder
          \<lparr>Method = ''GET'', PostForm = Map.empty\<rparr>)
     = \<lparr>Code = Some 400, Body = ''Method not allowed'' @ [CHR 0x0A]\<rparr>"
proof -
  have m: "Method \<lparr>Method = ''GET'', PostForm = Map.empty\<rparr> \<noteq> ''POST''" by simp
  show ?thesis
    using m
      token_stage_rejects_non_post
        [OF m, of "\<lambda>c w r. Write w ''success handler called''"
           "Some (\<lambda>c w r. Write w ''failure handler called'')" Background NewRecorder]
      token_stage_rejects_non_post
        [OF m, of "\<lambda>c w r. Write w ''success handler called''" None Background NewRecorder]
    by simp
qed

lemma github_validateResponse_nil:
  "github_validateResponse user None None = Inl NilPointerDereference"
  by (simp add: github_validateResponse_def)

text \<open>
  The failing runs of each stage built with a nil failure handler: the failure call is
  recorded and the writer left is the one the default failure handler leaves, the
  message of the attached error and a newline written to the writer of the run.
\<close>

lemma facebookHandler_nil_failure_run:
  "TokenFromContext ctx = Inl e \<Longrightarrow>
   facebookHandler config success None ctx w req =
     \<lparr>events = [FailureCalled (WithError ctx e)],
      writer = Write w (Error e @ [CHR 0x0A]), panicked = None\<rparr>"
  "TokenFromContext ctx = Inr token \<Longrightarrow> config ctx token = (user, resp, err) \<Longrightarrow>
   facebook_validateResponse user resp err = Inr (Some e) \<Longrightarrow>
   facebookHandler config success None ctx w req =
     \<lparr>events = [ProviderCalled token, FailureCalled (WithError ctx e)],
      writer = Write w (Error e @ [CHR 0x0A]), panicked = None\<rparr>"
  by (simp_all add: facebookHandler_def failureOrDefault_def ServeHTTPC_def
        DefaultFailureHandler_WithError)

lemma bitbucketHandler_nil_failure_run:
  "TokenFromContext ctx = Inl e \<Longrightarrow>
   bitbucketHandler config success None ctx w req =
     \<lparr>events = [FailureCalled (WithError ctx e)],
      writer = Write w (Error e @ [CHR 0x0A]), panicked = None\<rparr>"
  "TokenFromContext ctx = Inr token \<Longrightarrow> config ctx token = (user, resp, err) \<Longrightarrow>
   bitbucket_validateResponse user resp err = Inr (Some e) \<Longrightarrow>
   bitbucketHandler config success None ctx w req =
     \<lparr>events = [ProviderCalled token, FailureCalled (WithError ctx e)],
      writer = Write w (Error e @ [CHR 0x0A]), panicked = None\<rparr>"
  by (simp_all add: bitbucketHandler_def failureOrDefault_def ServeHTTPC_def
        DefaultFailureHandler_WithError)

lemma githubHandler_nil_failure_run:
  "TokenFromContext ctx = Inl e \<Longrightarrow>
   githubHandler config success None ctx w req =
     \<lparr>events = [FailureCalled (WithError ctx e)],
      writer = Write w (Error e @ [CHR 0x0A]), panicked = None\<rparr>"
  "TokenFromContext ctx = Inr token \<Longrightarrow> config ctx token = (user, resp, err) \<Longrightarrow>
   github_validateResponse user resp err = Inr (Some e) \<Longrightarrow>
   githubHandler config success None ctx w req =
     \<lparr>events = [ProviderCalled token, FailureCalled (WithError ctx e)],
      writer = Write w (Error e @ [CHR 0x0A]), panicked = None\<rparr>"
  by (simp_all add: githubHandler_def failureOrDefault_def ServeHTTPC_def
        DefaultFailureHandler_WithError)

lemma TokenStage_nil_failure_run:
  "Method req \<noteq> ''POST'' \<Longrightarrow>
   TokenStage success None ctx w req =
     \<lparr>events = [FailureCalled (WithError ctx ErrMethodNotAllowed)],
      writer = Write (WriteHeader w StatusBadRequest) (Error ErrMethodNotAllowed @ [CHR 0x0A]),
      panicked = None\<rparr>"
  "Method req = ''POST'' \<Longrightarrow> missing_or_blank req accessTokenField \<Longrightarrow>
   TokenStage success None ctx w req =
     \<lparr>events = [FailureCalled (WithError ctx ErrMissingToken)],
      writer = Write (WriteHeader w StatusBadRequest) (Error ErrMissingToken @ [CHR 0x0A]),
      panicked = None\<rparr>"
  "Method req = ''POST'' \<Longrightarrow> \<not> missing_or_blank req accessTokenField \<Longrightarrow>
   missing_or_blank req accessTokenSecretField \<Longrightarrow>
   TokenStage success None ctx w req =
     \<lparr>events = [FailureCalled (WithError ctx ErrMissingTokenSecret)],
      writer = Write (WriteHeader w StatusBadRequest) (Error ErrMissingTokenSecret @ [CHR 0x0A]),
      panicked = None\<rparr>"
  by (simp_all add: TokenStage_non_post TokenStage_missing_token TokenStage_missing_secret
        failureOrDefault_def ServeHTTPC_def DefaultFailureHandler_WithError)

text \<open>
  Claim C8: a stage constructed with a nil failure handler substitutes the default
  failure handler (facebookHandler, bitbucketHandler, githubHandler and the Token
  Stage). It is the same stage as the one constructed with the default failure handler,
  and each of its failing runs calls the failure handler once, on the context with the
  error attached, and leaves the writer the default failure handler leaves: for a
  user-fetch stage, on a context without a token and on a provider reply that the
  validator rejects; for the Token Stage, on a non-POST method, on a missing or blank
  token and on a missing or blank secret. The default failure handler writes the message
  of the last error attached to the context, followed by a newline; on a writer with
  nothing written before, that is the full body. It sets no status of its own: the
  status it leaves is the one the writer gives to any write, the status already written
  or else the default 200.
\<close>

theorem nil_failure_is_default_failure_handler:
  "facebookHandler fconfig success None = facebookHandler fconfig success (Some DefaultFailureHandler)
   \<and> bitbucketHandler bconfig success None
       = bitbucketHandler bconfig success (Some DefaultFailureHandler)
   \<and> githubHandler gconfig success None = githubHandler gconfig success (Some DefaultFailureHandler)
   \<and> TokenStage success None = TokenStage success (Some DefaultFailureHandler)
   \<and> ErrorFromContext (WithError (WithError ctx e') e) = Some e
   \<and> DefaultFailureHandler (WithError ctx e) w req = Write w (Error e @ [CHR 0x0A])
   \<and> Body (DefaultFailureHandler (WithError ctx e) w req) = Body w @ Error e @ [CHR 0x0A]
   \<and> Body (DefaultFailureHandler (WithError ctx e) NewRecorder req) = Error e @ [CHR 0x0A]
   \<and> Code (DefaultFailureHandler ctx w req) = Code (Write w s)
   \<and> Code (DefaultFailureHandler ctx w req)
       = (case Code w of None \<Rightarrow> Some StatusOK | Some c \<Rightarrow> Some c)
   \<and> (\<not> carries_token ctx \<longrightarrow>
        facebookHandler fconfig success None ctx w req =
          \<lparr>events = [FailureCalled (WithError ctx ErrContextMissingToken)],
           writer = Write w (Error ErrContextMissingToken @ [CHR 0x0A]), panicked = None\<rparr>
        \<and> bitbucketHandler bconfig success None ctx w req =
          \<lparr>events = [FailureCalled (WithError ctx ErrContextMissingToken)],
           writer = Write w (Error ErrContextMissingToken @ [CHR 0x0A]), panicked = None\<rparr>
        \<and> githubHandler gconfig success None ctx w req =
          \<lparr>events = [FailureCalled (WithError ctx ErrContextMissingToken)],
           writer = Write w (Error ErrContextMissingToken @ [CHR 0x0A]), panicked = None\<rparr>)
   \<and> (TokenFromContext ctx = Inr token \<and> fconfig ctx token = (fu, fresp, ferr)
        \<and> facebook_validateResponse fu fresp ferr = Inr (Some fe) \<longrightarrow>
        fe = ErrUnableToGetFacebookUser
        \<and> facebookHandler fconfig success None ctx w req =
          \<lparr>events = [ProviderCalled token, FailureCalled (WithError ctx fe)],
           writer = Write w (Error fe @ [CHR 0x0A]), panicked = None\<rparr>)
   \<and> (TokenFromContext ctx = Inr token \<and> bconfig ctx token = (bu, bresp, berr)
        \<and> bitbucket_validateResponse bu bresp berr = Inr (Some be) \<longrightarrow>
        be = ErrUnableToGetBitbucketUser
        \<and> bitbucketHandler bconfig success None ctx w req =
          \<lparr>events = [ProviderCalled token, FailureCalled (WithError ctx be)],
           writer = Write w (Error be @ [CHR 0x0A]), panicked = None\<rparr>)
   \<and> (TokenFromContext ctx = Inr token \<and> gconfig ctx token = (gu, gresp, gerr)
        \<and> github_validateResponse gu gresp gerr = Inr (Some ge) \<longrightarrow>
        ge = ErrUnableToGetGithubUser
        \<and> githubHandler gconfig success None ctx w req =
          \<lparr>events = [ProviderCalled token, FailureCalled (WithError ctx ge)],
           writer = Write w (Error ge @ [CHR 0x0A]), panicked = None\<rparr>)
   \<and> (Method req \<noteq> ''POST'' \<longrightarrow>
        TokenStage success None ctx w req =
          \<lparr>events = [FailureCalled (WithError ctx ErrMethodNotAllowed)],
           writer = Write (WriteHeader w StatusBadRequest) (Error ErrMethodNotAllowed @ [CHR 0x0A]),
           panicked = None\<rparr>)
   \<and> (Method req = ''POST'' \<and> missing_or_blank req accessTokenField \<longrightarrow>
        TokenStage success None ctx w req =
          \<lparr>events = [FailureCalled (WithError ctx ErrMissingToken)],
           writer = Write (WriteHeader w StatusBadRequest) (Error ErrMissingToken @ [CHR 0x0A]),
           panicked = None\<rparr>)
   \<and> (Method req = ''POST'' \<and> \<not> missing_or_blank req accessTokenField
        \<and> missing_or_blank req accessTokenSecretField \<longrightarrow>
        TokenStage success None ctx w req =
          \<lparr>events = [FailureCalled (WithError ctx ErrMissingTokenSecret)],
           writer = Write (WriteHeader w StatusBadRequest) (Error ErrMissingTokenSecret @ [CHR 0x0A]),
           panicked = None\<rparr>)"
proof (intro conjI impI)
  show "facebookHandler fconfig success None
          = facebookHandler fconfig success (Some DefaultFailureHandler)"
    by (intro ext) (simp add: facebookHandler_def failureOrDefault_def)
  show "bitbucketHandler bconfig success None
          = bitbucketHandler bconfig success (Some DefaultFailureHandler)"
    by (intro ext) (simp add: bitbucketHandler_def failureOrDefault_def)
  show "githubHandler gconfig success None
          = githubHandler gconfig success (Some DefaultFailureHandler)"
    by (intro ext) (simp add: githubHandler_def failureOrDefault_def)
  show "TokenStage success None = TokenStage success (Some DefaultFailureHandler)"
    by (intro ext) (simp add: TokenStage_def failureOrDefault_def)
  show "Code (DefaultFailureHandler ctx w req) = Code (Write w s)"
    and "Code (DefaultFailureHandler ctx w req)
           = (case Code w of None \<Rightarrow> Some StatusOK | Some c \<Rightarrow> Some c)"
    by (simp_all add: DefaultFailureHandler_def Code_Write)
  show "ErrorFromContext (WithError (WithError ctx e') e) = Some e"
    by (rule ErrorFromContext_WithError)
  show "DefaultFailureHandler (WithError ctx e) w req = Write w (Error e @ [CHR 0x0A])"
    by (rule DefaultFailureHandler_WithError)
  show "Body (DefaultFailureHandler (WithError ctx e) w req) = Body w @ Error e @ [CHR 0x0A]"
    and "Body (DefaultFailureHandler (WithError ctx e) NewRecorder req) = Error e @ [CHR 0x0A]"
    by (simp_all add: DefaultFailureHandler_WithError Body_Write NewRecorder_def)
next
  assume "\<not> carries_token ctx"
  then have missing: "TokenFromContext ctx = Inl ErrContextMissingToken"
    by (rule TokenFromContext_missing)
  show "facebookHandler fconfig success None ctx w req =
          \<lparr>events = [FailureCalled (WithError ctx ErrContextMissingToken)],
           writer = Write w (Error ErrContextMissingToken @ [CHR 0x0A]), panicked = None\<rparr>"
    by (rule facebookHandler_nil_failure_run(1) [OF missing])
  show "bitbucketHandler bconfig success None ctx w req =
          \<lparr>events = [FailureCalled (WithError ctx ErrContextMissingToken)],
           writer = Write w (Error ErrContextMissingToken @ [CHR 0x0A]), panicked = None\<rparr>"
    by (rule bitbucketHandler_nil_failure_run(1) [OF missing])
  show "githubHandler gconfig success None ctx w req =
          \<lparr>events = [FailureCalled (WithError ctx ErrContextMissingToken)],
           writer = Write w (Error ErrContextMissingToken @ [CHR 0x0A]), panicked = None\<rparr>"
    by (rule githubHandler_nil_failure_run(1) [OF missing])
next
  assume h: "TokenFromContext ctx = Inr token \<and> fconfig ctx token = (fu, fresp, ferr)
             \<and> facebook_validateResponse fu fresp ferr = Inr (Some fe)"
  show "fe = ErrUnableToGetFacebookUser"
    using h by (cases ferr; cases fresp)
      (simp_all add: facebook_validateResponse_err facebook_validateResponse_resp
         facebook_validateResponse_nil split: if_splits)
  show "facebookHandler fconfig success None ctx w req =
          \<lparr>events = [ProviderCalled token, FailureCalled (WithError ctx fe)],
           writer = Write w (Error fe @ [CHR 0x0A]), panicked = None\<rparr>"
    using h
    by (intro facebookHandler_nil_failure_run(2) [of ctx token fconfig fu fresp ferr fe])
       simp_all
next
  assume h: "TokenFromContext ctx = Inr token \<and> bconfig ctx token = (bu, bresp, berr)
             \<and> bitbucket_validateResponse bu bresp berr = Inr (Some be)"
  show "be = ErrUnableToGetBitbucketUser"
    using h by (cases berr; cases bresp)
      (simp_all add: bitbucket_validateResponse_err bitbucket_validateResponse_resp
         bitbucket_validateResponse_nil split: if_splits)
  show "bitbucketHandler bconfig success None ctx w req =
          \<lparr>events = [ProviderCalled token, FailureCalled (WithError ctx be)],
           writer = Write w (Error be @ [CHR 0x0A]), panicked = None\<rparr>"
    using h
    by (intro bitbucketHandler_nil_failure_run(2) [of ctx token bconfig bu bresp berr be])
       simp_all
next
  assume h: "TokenFromContext ctx = Inr token \<and> gconfig ctx token = (gu, gresp, gerr)
             \<and> github_validateResponse gu gresp gerr = Inr (Some ge)"
  show "ge = ErrUnableToGetGithubUser"
    using h by (cases gerr; cases gresp)
      (simp_all add: github_validateResponse_err github_validateResponse_resp
         github_validateResponse_nil split: if_splits)
  show "githubHandler gconfig success None ctx w req =
          \<lparr>events = [ProviderCalled token, FailureCalled (WithError ctx ge)],
           writer = Write w (Error ge @ [CHR 0x0A]), panicked = None\<rparr>"
    using h
    by (intro githubHandler_nil_failure_run(2) [of ctx token gconfig gu gresp gerr ge])
       simp_all
next
  assume "Method req \<noteq> ''POST''"
  then show "TokenStage success None ctx w req =
          \<lparr>events = [FailureCalled (WithError ctx ErrMethodNotAllowed)],
           writer = Write (WriteHeader w StatusBadRequest) (Error ErrMethodNotAllowed @ [CHR 0x0A]),
           panicked = None\<rparr>"
    by (rule TokenStage_nil_failure_run(1))
next
  assume "Method req = ''POST'' \<and> missing_or_blank req accessTokenField"
  then show "TokenStage success None ctx w req =
          \<lparr>events = [FailureCalled (WithError ctx ErrMissingToken)],
           writer = Write (WriteHeader w StatusBadRequest) (Error ErrMissingToken @ [CHR 0x0A]),
           panicked = None\<rparr>"
    by (intro TokenStage_nil_failure_run(2)) simp_all
next
  assume "Method req = ''POST'' \<and> \<not> missing_or_blank req accessTokenField
          \<and> missing_or_blank req accessTokenSecretField"
  then show "TokenStage success None ctx w req =
          \<lparr>events = [FailureCalled (WithError ctx ErrMissingTokenSecret)],
           writer = Write (WriteHeader w StatusBadRequest) (Error ErrMissingTokenSecret @ [CHR 0x0A]),
           panicked = None\<rparr>"
    by (intro TokenStage_nil_failure_run(3)) simp_all
qed

theorem nil_failure_is_default_failure_handler_witness:
  "\<not> carries_token Background
   \<and> facebookHandler (\<lambda>c t. (None, None, None)) (\<lambda>c w r. Write w ''success handler called'')
       None Background NewRecorder \<lparr>Method = ''GET'', PostForm = Map.empty\<rparr>
     = \<lparr>events = [FailureCalled (WithError Background ErrContextMissingToken)],
        writer = \<lparr>Code = Some 200, Body = ''oauth2: Context missing Token'' @ [CHR 0x0A]\<rparr>,
        panicked = None\<rparr>
   \<and> TokenFromContext (WithToken Background \<lparr>AccessToken = ''any-token''\<rparr>)
     = Inr \<lparr>AccessToken = ''any-token''\<rparr>
   \<and> bitbucket_validateResponse None (Some \<lparr>StatusCode = 500\<rparr>) None
     = Inr (Some ErrUnableToGetBitbucketUser)
   \<and> bitbucketHandler (\<lambda>c t. (None, Some \<lparr>StatusCode = 500\<rparr>, None))
       (\<lambda>c w r. Write w ''success handler called'') None
       (WithToken Background \<lparr>AccessToken = ''any-token''\<rparr>) NewRecorder
       \<lparr>Method = ''GET'', PostForm = Map.empty\<rparr>
     = \<lparr>events = [ProviderCalled \<lparr>AccessToken = ''any-token''\<rparr>,
                  FailureCalled
                    (WithError (WithToken Background \<lparr>AccessToken = ''any-token''\<rparr>)
                       ErrUnableToGetBitbucketUser)],
        writer = \<lparr>Code = Some 200,
                  Body = ''bitbucket: unable to get Bitbucket User'' @ [CHR 0x0A]\<rparr>,
        panicked = None\<rparr>
   \<and> writer (TokenStage (\<lambda>c w r. Write w ''success handler called'') None Background NewRecorder
       \<lparr>Method = ''GET'', PostForm = Map.empty\<rparr>)
     = \<lparr>Code = Some 400, Body = ''Method not allowed'' @ [CHR 0x0A]\<rparr>"
proof -
  let ?req = "\<lparr>Method = ''GET'', PostForm = Map.empty\<rparr>"
  let ?tctx = "WithToken Background \<lparr>AccessToken = ''any-token''\<rparr>"
  have n: "\<not> carries_token Background"
    by (simp add: carries_token_def Background_def Value_def)
  have t: "TokenFromContext ?tctx = Inr \<lparr>AccessToken = ''any-token''\<rparr>"
    by (rule TokenFromContext_WithToken)
  have v: "bitbucket_validateResponse None (Some \<lparr>StatusCode = 500\<rparr>) None
             = Inr (Some ErrUnableToGetBitbucketUser)"
    by (simp add: bitbucket_validateResponse_resp)
  have w200: "Write NewRecorder s = \<lparr>Code = Some 200, Body = s\<rparr>" for s
    by (simp add: Write_def WriteHeader_def NewRecorder_def StatusOK_def)
  have w400: "Write (WriteHeader NewRecorder StatusBadRequest) s = \<lparr>Code = Some 400, Body = s\<rparr>" for s
    by (simp add: Write_def WriteHeader_def NewRecorder_def StatusBadRequest_def)
  have m: "Method ?req \<noteq> ''POST''" by simp
  note missing =
    nil_failure_is_default_failure_handler
      [where fconfig = "\<lambda>c t. (None, None, None)"
         and bconfig = "\<lambda>c t. (None, None, None)"
         and gconfig = "\<lambda>c t. (None, None, None)"
         and success = "\<lambda>c w r. Write w ''success handler called''"
         and ctx = Background and e = ErrContextMissingToken and e' = ErrContextMissingToken
         and w = NewRecorder and s = "[]" and req = ?req
         and token = "\<lparr>AccessToken = ''any-token''\<rparr>"
         and fu = None and fresp = None and ferr = None and fe = ErrUnableToGetFacebookUser
         and bu = None and bresp = None and berr = None and be = ErrUnableToGetBitbucketUser
         and gu = None and gresp = None and gerr = None and ge = ErrUnableToGetGithubUser]
  note rejected =
    nil_failure_is_default_failure_handler
      [where fconfig = "\<lambda>c t. (None, None, None)"
         and bconfig = "\<lambda>c t. (None, Some \<lparr>StatusCode = 500\<rparr>, None)"
         and gconfig = "\<lambda>c t. (None, None, None)"
         and success = "\<lambda>c w r. Write w ''success handler called''"
         and ctx = ?tctx and e = ErrContextMissingToken and e' = ErrContextMissingToken
         and w = NewRecorder and s = "[]" and req = ?req
         and token = "\<lparr>AccessToken = ''any-token''\<rparr>"
         and fu = None and fresp = None and ferr = None and fe = ErrUnableToGetFacebookUser
         and bu = None and bresp = "Some \<lparr>StatusCode = 500\<rparr>" and berr = None
         and be = ErrUnableToGetBitbucketUser
         and gu = None and gresp = None and gerr = None and ge = ErrUnableToGetGithubUser]
  have f: "facebookHandler (\<lambda>c t. (None, None, None))
             (\<lambda>c w r. Write w ''success handler called'') None Background NewRecorder ?req
           = \<lparr>events = [FailureCalled (WithError Background ErrContextMissingToken)],
              writer = Write NewRecorder (Error ErrContextMissingToken @ [CHR 0x0A]),
              panicked = None\<rparr>"
    using missing n by blast
  have b: "bitbucketHandler (\<lambda>c t. (None, Some \<lparr>StatusCode = 500\<rparr>, None))
             (\<lambda>c w r. Write w ''success handler called'') None ?tctx NewRecorder ?req
           = \<lparr>events = [ProviderCalled \<lparr>AccessToken = ''any-token''\<rparr>,
                        FailureCalled (WithError ?tctx ErrUnableToGetBitbucketUser)],
              writer = Write NewRecorder (Error ErrUnableToGetBitbucketUser @ [CHR 0x0A]),
              panicked = None\<rparr>"
    using rejected t v by blast
  have ts: "TokenStage (\<lambda>c w r. Write w ''success handler called'') None Background
              NewRecorder ?req
            = \<lparr>events = [FailureCalled (WithError Background ErrMethodNotAllowed)],
               writer = Write (WriteHeader NewRecorder StatusBadRequest)
                          (Error ErrMethodNotAllowed @ [CHR 0x0A]),
               panicked = None\<rparr>"
    using missing m by blast
  show ?thesis
    using n t v by (simp add: f b ts w200 w400)
qed

end
